theory Spec2Isabelle
  imports Main
begin

section \<open>The registration shim of BGData (src/init.c)\<close>

text \<open>
  The translation unit consists of two extern declarations, one static constant table of
  method descriptors and one exported function, the registrar. The registrar does nothing
  but call three functions of the host (R); the kernels behind the two extern declarations
  live in other files of the package.
\<close>

subsection \<open>Declarations\<close>

text \<open>
  The C types that occur in the prototypes of init.c: the host's opaque value type
  \<^verbatim>\<open>SEXP\<close>, a pointer to the host's library descriptor \<^verbatim>\<open>DllInfo *\<close>, and
  \<^verbatim>\<open>void\<close>.
\<close>

datatype c_type = SEXP | DllInfo_pointer | Void

record c_prototype =
  c_name :: string
  c_params :: "c_type list"
  c_result :: c_type

text \<open>
  The two kernels, declared in lines 6 and 7:
  \<^verbatim>\<open>extern SEXP summarize(SEXP);\<close> and \<^verbatim>\<open>extern SEXP rayOLS(SEXP, SEXP);\<close>.
  A value of type \<open>kernel\<close> stands for the address of the function (\<^verbatim>\<open>&summarize\<close>,
  \<^verbatim>\<open>&rayOLS\<close>).
\<close>

datatype kernel = summarize | rayOLS

fun prototype :: "kernel \<Rightarrow> c_prototype" where
  "prototype summarize = \<lparr>c_name = ''summarize'', c_params = [SEXP], c_result = SEXP\<rparr>"
| "prototype rayOLS = \<lparr>c_name = ''rayOLS'', c_params = [SEXP, SEXP], c_result = SEXP\<rparr>"

text \<open>The registrar's own prototype, line 15: \<^verbatim>\<open>void R_init_BGData(DllInfo *dll)\<close>.\<close>

definition R_init_BGData_prototype :: c_prototype where
  "R_init_BGData_prototype =
     \<lparr>c_name = ''R_init_BGData'', c_params = [DllInfo_pointer], c_result = Void\<rparr>"

subsection \<open>The descriptor table\<close>

text \<open>
  A method descriptor of the host's header \<^verbatim>\<open>R_ext/Rdynload.h\<close>:
  \<^verbatim>\<open>typedef struct { const char *name; DL_FUNC fun; int numArgs; } R_CallMethodDef;\<close>
  Both pointers may be null, which is \<open>None\<close>. The field \<^verbatim>\<open>fun\<close> is called \<open>func\<close>,
  since \<open>fun\<close> is a keyword. The descriptors of the \<^verbatim>\<open>.C\<close> and \<^verbatim>\<open>.Fortran\<close>
  interfaces carry one more column, the argument types.
\<close>

record R_CallMethodDef =
  name :: "string option"
  func :: "kernel option"
  numArgs :: int

record R_CMethodDef = R_CallMethodDef +
  types :: "nat list option"

text \<open>
  Lines 9 to 13:
  \<^verbatim>\<open>
  static const R_CallMethodDef callMethods[] = {
      {"C_summarize", (DL_FUNC) &summarize, 1},
      {"C_rayOLS", (DL_FUNC) &rayOLS, 2},
      {NULL, NULL, 0}
  };
  \<close>
\<close>

definition callMethods :: "R_CallMethodDef list" where
  "callMethods =
     [\<lparr>name = Some ''C_summarize'', func = Some summarize, numArgs = 1\<rparr>,
      \<lparr>name = Some ''C_rayOLS'', func = Some rayOLS, numArgs = 2\<rparr>,
      \<lparr>name = None, func = None, numArgs = 0\<rparr>]"

text \<open>The sentinel descriptor \<^verbatim>\<open>{NULL, NULL, 0}\<close>.\<close>

definition sentinel :: R_CallMethodDef where
  "sentinel = \<lparr>name = None, func = None, numArgs = 0\<rparr>"

subsection \<open>The registrar\<close>

text \<open>
  A pointer to the host's library descriptor is an address or null. The registrar never
  dereferences it; it hands it to the host.
\<close>

type_synonym DllInfo_ptr = "nat option"

text \<open>
  The three functions of the host that the registrar calls, with their arguments. The four
  table arguments of \<^verbatim>\<open>R_registerRoutines\<close> are, in this order, the routines for the
  \<^verbatim>\<open>.C\<close>, \<^verbatim>\<open>.Call\<close>, \<^verbatim>\<open>.Fortran\<close> and \<^verbatim>\<open>.External\<close> interfaces; a null pointer is
  \<open>None\<close>.
\<close>

datatype host_call =
    R_registerRoutines DllInfo_ptr "R_CMethodDef list option" "R_CallMethodDef list option"
      "R_CMethodDef list option" "R_CallMethodDef list option"
  | R_useDynamicSymbols DllInfo_ptr bool
  | R_forceSymbols DllInfo_ptr bool

text \<open>
  The host is not part of the package, so it is a parameter: a function that, for a call
  and the host's state, either returns a value (the \<^verbatim>\<open>int\<close> or \<^verbatim>\<open>Rboolean\<close> result of
  the call) and the new state, or fails with an error of the host and the state it leaves
  behind. A failure of the host does not return to the caller.
\<close>

type_synonym ('e, 's) host = "host_call \<Rightarrow> 's \<Rightarrow> ('e \<times> 's) + (int \<times> 's)"

text \<open>
  Lines 15 to 19:
  \<^verbatim>\<open>
  void R_init_BGData(DllInfo *dll) {
      R_registerRoutines(dll, NULL, callMethods, NULL, NULL);
      R_useDynamicSymbols(dll, FALSE);
      R_forceSymbols(dll, TRUE);
  }
  \<close>
  The three results are discarded, and the function returns nothing: what is left of a run
  that returns is the host's state.
\<close>

definition R_init_BGData :: "('e, 's) host \<Rightarrow> DllInfo_ptr \<Rightarrow> 's \<Rightarrow> ('e \<times> 's) + 's" where
  "R_init_BGData host dll s =
     (case host (R_registerRoutines dll None (Some callMethods) None None) s of
        Inl failure \<Rightarrow> Inl failure
      | Inr (r1, s1) \<Rightarrow>
          (case host (R_useDynamicSymbols dll False) s1 of
             Inl failure \<Rightarrow> Inl failure
           | Inr (r2, s2) \<Rightarrow>
               (case host (R_forceSymbols dll True) s2 of
                  Inl failure \<Rightarrow> Inl failure
                | Inr (r3, s3) \<Rightarrow> Inr s3)))"

text \<open>
  To observe which calls the registrar makes, a host is wrapped so that it appends every
  call it receives to a log, whether the call returns or fails.
\<close>

definition logging :: "('e, 's) host \<Rightarrow> ('e, host_call list \<times> 's) host" where
  "logging host c = (\<lambda>(tr, s).
     case host c s of
       Inl (e, s') \<Rightarrow> Inl (e, (tr @ [c], s'))
     | Inr (r, s') \<Rightarrow> Inr (r, (tr @ [c], s')))"

definition calls_made :: "('e, 's) host \<Rightarrow> DllInfo_ptr \<Rightarrow> 's \<Rightarrow> host_call list" where
  "calls_made host dll s =
     (case R_init_BGData (logging host) dll ([], s) of
        Inl (e, (tr, s')) \<Rightarrow> tr
      | Inr (tr, s') \<Rightarrow> tr)"

text \<open>A host that only records the calls and always returns.\<close>

definition recorder :: "(unit, host_call list) host" where
  "recorder c tr = Inr (0, tr @ [c])"

fun is_registration :: "host_call \<Rightarrow> bool" where
  "is_registration (R_registerRoutines dll c call f ext) = True"
| "is_registration (R_useDynamicSymbols dll v) = False"
| "is_registration (R_forceSymbols dll v) = False"

fun handle_of :: "host_call \<Rightarrow> DllInfo_ptr" where
  "handle_of (R_registerRoutines dll c call f ext) = dll"
| "handle_of (R_useDynamicSymbols dll v) = dll"
| "handle_of (R_forceSymbols dll v) = dll"

text \<open>
  A second host for the examples: it counts the calls it has served and refuses a call on
  a null library handle, leaving the count as it is.
\<close>

definition checking_host :: "(string, nat) host" where
  "checking_host c n =
     (case handle_of c of
        None \<Rightarrow> Inl (''invalid DllInfo'', n)
      | Some a \<Rightarrow> Inr (1, Suc n))"

subsection \<open>Lookup and dispatch by the host\<close>

text \<open>
  Modelled from the spec: the host resolves a public name in a descriptor table. It reads
  the table as a null-terminated list: the search ends without a result at the first
  descriptor whose name is null, and the first descriptor before it with the requested
  name is the result. A table without such a descriptor would be read beyond its end; the
  search gives no result there. The table of init.c ends with one.
\<close>

fun lookup_routine :: "R_CallMethodDef list \<Rightarrow> string \<Rightarrow> R_CallMethodDef option" where
  "lookup_routine [] n = None"
| "lookup_routine (e # es) n =
     (case name e of
        None \<Rightarrow> None
      | Some m \<Rightarrow> if m = n then Some e else lookup_routine es n)"

text \<open>
  Modelled from the spec: the handle that a request for a public name yields. \<open>None\<close> is
  no handle, be it that the name is not in the table or that the handle stored there is
  null.
\<close>

definition lookup_handle :: "R_CallMethodDef list \<Rightarrow> string \<Rightarrow> kernel option" where
  "lookup_handle tbl n =
     (case lookup_routine tbl n of
        None \<Rightarrow> None
      | Some e \<Rightarrow> func e)"

text \<open>
  Modelled from the spec: invoking a public name with a list of opaque host values. The
  host resolves the name, compares the number of arguments with the arity of the
  descriptor, and enters the function behind the handle with the arguments as given. The
  result says which kernel is entered and with which arguments; what the kernel does then
  is not the shim's business.
\<close>

datatype dispatch_error = No_such_routine | Null_handle | Wrong_arity

definition dotCall ::
  "R_CallMethodDef list \<Rightarrow> string \<Rightarrow> 'v list \<Rightarrow> dispatch_error + (kernel \<times> 'v list)" where
  "dotCall tbl n args =
     (case lookup_routine tbl n of
        None \<Rightarrow> Inl No_such_routine
      | Some e \<Rightarrow>
          (case func e of
             None \<Rightarrow> Inl Null_handle
           | Some k \<Rightarrow>
               if numArgs e = int (length args) then Inr (k, args) else Inl Wrong_arity))"

subsection \<open>The name of the initializer\<close>

text \<open>
  Modelled from the spec: the host's loader convention for the name of a library's
  initializer, \<^verbatim>\<open>R_init_\<close> followed by the name of the library.
\<close>

definition R_init_symbol :: "string \<Rightarrow> string" where
  "R_init_symbol pkg = ''R_init_'' @ pkg"

text \<open>
  The functions that init.c defines with external linkage. The table is static, and the two
  kernels are declared, not defined.
\<close>

definition exported_functions :: "c_prototype list" where
  "exported_functions = [R_init_BGData_prototype]"

section \<open>Properties of the descriptor table\<close>

lemma set_callMethods:
  "set callMethods =
     {\<lparr>name = Some ''C_summarize'', func = Some summarize, numArgs = 1\<rparr>,
      \<lparr>name = Some ''C_rayOLS'', func = Some rayOLS, numArgs = 2\<rparr>,
      sentinel}"
  by (simp add: callMethods_def sentinel_def)

lemma callMethods_first: "callMethods ! 0 \<in> set callMethods \<and> callMethods ! 0 \<noteq> sentinel"
  by (simp add: callMethods_def sentinel_def)

lemma callMethods_second: "callMethods ! 1 \<in> set callMethods \<and> callMethods ! 1 \<noteq> sentinel"
  by (simp add: callMethods_def sentinel_def)

text \<open>
  Claim C1. The shim publishes exactly two callables: every entry of the descriptor table
  other than the sentinel carries the name and arity \<open>(C_summarize, 1)\<close> or
  \<open>(C_rayOLS, 2)\<close>, both pairs occur in the table, and the entries other than the
  sentinel are two, with these names and arities in this order.
\<close>

theorem C1_published_callables:
  "(e \<in> set callMethods \<and> e \<noteq> sentinel \<longrightarrow>
      (name e, numArgs e) \<in> {(Some ''C_summarize'', 1), (Some ''C_rayOLS'', 2)})
   \<and> (\<exists>a \<in> set callMethods. a \<noteq> sentinel \<and> name a = Some ''C_summarize'' \<and> numArgs a = 1)
   \<and> (\<exists>b \<in> set callMethods. b \<noteq> sentinel \<and> name b = Some ''C_rayOLS'' \<and> numArgs b = 2)
   \<and> map (\<lambda>d. (name d, numArgs d)) (filter (\<lambda>d. d \<noteq> sentinel) callMethods) =
        [(Some ''C_summarize'', 1), (Some ''C_rayOLS'', 2)]
   \<and> length (filter (\<lambda>d. d \<noteq> sentinel) callMethods) = 2"
proof -
  have every: "e \<in> set callMethods \<and> e \<noteq> sentinel \<longrightarrow>
      (name e, numArgs e) \<in> {(Some ''C_summarize'', 1), (Some ''C_rayOLS'', 2)}"
    unfolding set_callMethods by auto
  have first: "\<exists>a \<in> set callMethods. a \<noteq> sentinel \<and> name a = Some ''C_summarize'' \<and> numArgs a = 1"
    unfolding set_callMethods by (simp add: sentinel_def)
  have second: "\<exists>b \<in> set callMethods. b \<noteq> sentinel \<and> name b = Some ''C_rayOLS'' \<and> numArgs b = 2"
    unfolding set_callMethods by (simp add: sentinel_def)
  have listed: "map (\<lambda>d. (name d, numArgs d)) (filter (\<lambda>d. d \<noteq> sentinel) callMethods) =
        [(Some ''C_summarize'', 1), (Some ''C_rayOLS'', 2)]"
    by (simp add: callMethods_def sentinel_def)
  have two: "length (filter (\<lambda>d. d \<noteq> sentinel) callMethods) = 2"
    by (simp add: callMethods_def sentinel_def)
  from every first second listed two show ?thesis by blast
qed

theorem C1_published_callables_witness:
  "callMethods ! 1 \<in> set callMethods \<and> callMethods ! 1 \<noteq> sentinel
   \<and> (name (callMethods ! 1), numArgs (callMethods ! 1)) = (Some ''C_rayOLS'', 2)"
proof -
  note here = callMethods_second
  have "(name (callMethods ! 1), numArgs (callMethods ! 1))
      \<in> {(Some ''C_summarize'', 1), (Some ''C_rayOLS'', 2)}"
    using C1_published_callables [of "callMethods ! 1"] here by blast
  moreover have "name (callMethods ! 1) \<noteq> Some ''C_summarize''"
    by (simp add: callMethods_def)
  ultimately show ?thesis using here by simp
qed

text \<open>
  Claim C4. The invariants of the descriptor table: the names in the table are pairwise
  distinct; every entry other than the sentinel has a handle that is not null; the arity
  of an entry is the number of parameters in the prototype of the kernel behind its
  handle (one for \<open>summarize\<close>, two for \<open>rayOLS\<close>); and the sentinel, with null
  name, null handle and arity zero, occurs exactly once, as the last entry, and is the
  only entry with a null name.
\<close>

theorem C4_table_invariants:
  "distinct (map name callMethods)
   \<and> (e \<in> set callMethods \<and> e \<noteq> sentinel \<longrightarrow> func e \<noteq> None)
   \<and> (e \<in> set callMethods \<and> func e = Some k \<longrightarrow>
        numArgs e = int (length (c_params (prototype k))))
   \<and> length (c_params (prototype summarize)) = 1
   \<and> length (c_params (prototype rayOLS)) = 2
   \<and> name sentinel = None \<and> func sentinel = None \<and> numArgs sentinel = 0
   \<and> filter (\<lambda>d. d = sentinel) callMethods = [sentinel]
   \<and> filter (\<lambda>d. name d = None) callMethods = [sentinel]
   \<and> callMethods \<noteq> [] \<and> last callMethods = sentinel"
proof -
  have names: "distinct (map name callMethods)"
    by (simp add: callMethods_def)
  have handles: "e \<in> set callMethods \<and> e \<noteq> sentinel \<longrightarrow> func e \<noteq> None"
    unfolding set_callMethods by auto
  have arities: "e \<in> set callMethods \<and> func e = Some k \<longrightarrow>
        numArgs e = int (length (c_params (prototype k)))"
    unfolding set_callMethods by (auto simp: sentinel_def)
  have protos: "length (c_params (prototype summarize)) = 1
      \<and> length (c_params (prototype rayOLS)) = 2"
    by simp
  have fields: "name sentinel = None \<and> func sentinel = None \<and> numArgs sentinel = 0"
    by (simp add: sentinel_def)
  have once: "filter (\<lambda>d. d = sentinel) callMethods = [sentinel]
      \<and> filter (\<lambda>d. name d = None) callMethods = [sentinel]"
    by (simp add: callMethods_def sentinel_def)
  have at_end: "callMethods \<noteq> [] \<and> last callMethods = sentinel"
    by (simp add: callMethods_def sentinel_def)
  from names handles arities protos fields once at_end show ?thesis by blast
qed

theorem C4_table_invariants_witness:
  "callMethods ! 0 \<in> set callMethods \<and> callMethods ! 0 \<noteq> sentinel
   \<and> func (callMethods ! 0) = Some summarize
   \<and> numArgs (callMethods ! 0) = int (length (c_params (prototype summarize)))"
proof -
  note here = callMethods_first
  have handle: "func (callMethods ! 0) = Some summarize"
    by (simp add: callMethods_def)
  have "numArgs (callMethods ! 0) = int (length (c_params (prototype summarize)))"
    using C4_table_invariants [of "callMethods ! 0" summarize] here handle by blast
  then show ?thesis using here handle by simp
qed

section \<open>Lookup and dispatch\<close>

lemma lookup_routine_callMethods:
  "lookup_routine callMethods n =
     (if n = ''C_summarize''
        then Some \<lparr>name = Some ''C_summarize'', func = Some summarize, numArgs = 1\<rparr>
      else if n = ''C_rayOLS''
        then Some \<lparr>name = Some ''C_rayOLS'', func = Some rayOLS, numArgs = 2\<rparr>
      else None)"
  by (auto simp: callMethods_def)

text \<open>
  Claim C5. Dispatch through the table reaches the intended kernel: an entry of the table
  named \<open>C_summarize\<close> holds the address of \<open>summarize\<close>, an entry named \<open>C_rayOLS\<close>
  holds the address of \<open>rayOLS\<close>, and these are the handles a lookup yields; so
  invoking \<open>C_summarize\<close> with one argument enters \<open>summarize\<close> with this argument, and
  invoking \<open>C_rayOLS\<close> with two arguments enters \<open>rayOLS\<close> with these two.
\<close>

theorem C5_dispatch_reaches_kernel:
  "(e \<in> set callMethods \<and> name e = Some ''C_summarize'' \<longrightarrow> func e = Some summarize)
   \<and> (e \<in> set callMethods \<and> name e = Some ''C_rayOLS'' \<longrightarrow> func e = Some rayOLS)
   \<and> lookup_handle callMethods ''C_summarize'' = Some summarize
   \<and> lookup_handle callMethods ''C_rayOLS'' = Some rayOLS
   \<and> dotCall callMethods ''C_summarize'' [x] = Inr (summarize, [x])
   \<and> dotCall callMethods ''C_rayOLS'' [y, z] = Inr (rayOLS, [y, z])"
proof -
  have stored1: "e \<in> set callMethods \<and> name e = Some ''C_summarize'' \<longrightarrow> func e = Some summarize"
    unfolding set_callMethods by (auto simp: sentinel_def)
  have stored2: "e \<in> set callMethods \<and> name e = Some ''C_rayOLS'' \<longrightarrow> func e = Some rayOLS"
    unfolding set_callMethods by (auto simp: sentinel_def)
  have found: "lookup_handle callMethods ''C_summarize'' = Some summarize
      \<and> lookup_handle callMethods ''C_rayOLS'' = Some rayOLS"
    by (simp add: lookup_handle_def lookup_routine_callMethods)
  have entered1: "dotCall callMethods ''C_summarize'' [x] = Inr (summarize, [x])"
    by (simp add: dotCall_def lookup_routine_callMethods)
  have entered2: "dotCall callMethods ''C_rayOLS'' [y, z] = Inr (rayOLS, [y, z])"
    by (simp add: dotCall_def lookup_routine_callMethods)
  from stored1 stored2 found entered1 entered2 show ?thesis by blast
qed

theorem C5_dispatch_reaches_kernel_witness:
  "callMethods ! 0 \<in> set callMethods \<and> name (callMethods ! 0) = Some ''C_summarize''
   \<and> func (callMethods ! 0) = Some summarize
   \<and> dotCall callMethods ''C_rayOLS'' [False, True] = Inr (rayOLS, [False, True])"
proof -
  have mem: "callMethods ! 0 \<in> set callMethods"
    by (simp add: callMethods_first)
  have named: "name (callMethods ! 0) = Some ''C_summarize''"
    by (simp add: callMethods_def)
  note fact = C5_dispatch_reaches_kernel [of "callMethods ! 0" False False True]
  have "func (callMethods ! 0) = Some summarize"
    using fact mem named by blast
  moreover have "dotCall callMethods ''C_rayOLS'' [False, True] = Inr (rayOLS, [False, True])"
    using fact by blast
  ultimately show ?thesis using mem named by simp
qed

text \<open>
  Claim C6. Looking a name up in the descriptor table yields a handle if and only if the
  name is \<open>C_summarize\<close> or \<open>C_rayOLS\<close>, and then the handle is not null; for every other
  name, such as \<open>C_internal_helper\<close>, the lookup finds no descriptor and yields no handle.
\<close>

theorem C6_lookup_iff_published:
  "((\<exists>k. lookup_handle callMethods n = Some k) \<longleftrightarrow> n = ''C_summarize'' \<or> n = ''C_rayOLS'')
   \<and> (lookup_handle callMethods n = None \<longleftrightarrow> n \<noteq> ''C_summarize'' \<and> n \<noteq> ''C_rayOLS'')
   \<and> (lookup_routine callMethods n = None \<longleftrightarrow> n \<noteq> ''C_summarize'' \<and> n \<noteq> ''C_rayOLS'')
   \<and> lookup_handle callMethods ''C_internal_helper'' = None"
  by (simp add: lookup_handle_def lookup_routine_callMethods)

theorem C6_lookup_iff_published_witness:
  "lookup_routine callMethods ''summarize'' = None
   \<and> (\<exists>k. lookup_handle callMethods ''C_rayOLS'' = Some k)"
  using C6_lookup_iff_published [of "''summarize''"] C6_lookup_iff_published [of "''C_rayOLS''"]
  by simp

section \<open>The name and the signature of the initializer\<close>

text \<open>
  Claim C9. The exported initializer is named exactly \<open>R_init_BGData\<close>, that is
  \<open>R_init_\<close> followed by \<open>BGData\<close>, and \<open>BGData\<close> is the only library name for which
  the loader convention gives this name; it takes exactly one argument, of type pointer to
  \<open>DllInfo\<close>, and returns nothing; and it is the only function that init.c exports.
\<close>

theorem C9_initializer_name:
  "c_name R_init_BGData_prototype = ''R_init_BGData''
   \<and> c_name R_init_BGData_prototype = R_init_symbol ''BGData''
   \<and> (R_init_symbol pkg = c_name R_init_BGData_prototype \<longleftrightarrow> pkg = ''BGData'')
   \<and> c_params R_init_BGData_prototype = [DllInfo_pointer]
   \<and> length (c_params R_init_BGData_prototype) = 1
   \<and> c_result R_init_BGData_prototype = Void
   \<and> map c_name exported_functions = [R_init_symbol ''BGData'']"
  by (auto simp: R_init_BGData_prototype_def R_init_symbol_def exported_functions_def)

section \<open>The calls of the registrar\<close>

lemma R_init_BGData_returns:
  "R_init_BGData H dll s = Inr s' \<longleftrightarrow>
     (\<exists>r1 s1 r2 s2 r3.
        H (R_registerRoutines dll None (Some callMethods) None None) s = Inr (r1, s1)
      \<and> H (R_useDynamicSymbols dll False) s1 = Inr (r2, s2)
      \<and> H (R_forceSymbols dll True) s2 = Inr (r3, s'))"
  by (auto simp: R_init_BGData_def split: sum.splits prod.splits)

lemma R_init_BGData_fails:
  "R_init_BGData H dll s = Inl f \<longleftrightarrow>
     H (R_registerRoutines dll None (Some callMethods) None None) s = Inl f
   \<or> (\<exists>r1 s1. H (R_registerRoutines dll None (Some callMethods) None None) s = Inr (r1, s1)
        \<and> (H (R_useDynamicSymbols dll False) s1 = Inl f
          \<or> (\<exists>r2 s2. H (R_useDynamicSymbols dll False) s1 = Inr (r2, s2)
               \<and> H (R_forceSymbols dll True) s2 = Inl f)))"
  by (auto simp: R_init_BGData_def split: sum.splits prod.splits)

lemma calls_made_cases:
  "calls_made H dll s =
     (case H (R_registerRoutines dll None (Some callMethods) None None) s of
        Inl f \<Rightarrow> [R_registerRoutines dll None (Some callMethods) None None]
      | Inr (r1, s1) \<Rightarrow>
          (case H (R_useDynamicSymbols dll False) s1 of
             Inl f \<Rightarrow> [R_registerRoutines dll None (Some callMethods) None None,
                       R_useDynamicSymbols dll False]
           | Inr (r2, s2) \<Rightarrow>
               [R_registerRoutines dll None (Some callMethods) None None,
                R_useDynamicSymbols dll False, R_forceSymbols dll True]))"
  by (simp add: calls_made_def R_init_BGData_def logging_def split: sum.splits prod.splits)

lemma calls_made_returns:
  "R_init_BGData H dll s = Inr s' \<Longrightarrow>
   calls_made H dll s =
     [R_registerRoutines dll None (Some callMethods) None None,
      R_useDynamicSymbols dll False, R_forceSymbols dll True]"
  by (auto simp: calls_made_cases R_init_BGData_returns)

lemma calls_made_recorder:
  "calls_made recorder dll tr =
     [R_registerRoutines dll None (Some callMethods) None None,
      R_useDynamicSymbols dll False, R_forceSymbols dll True]"
  by (simp add: calls_made_cases recorder_def)

lemma recorder_returns: "\<forall>c t. \<exists>r t'. recorder c t = Inr (r, t')"
  by (simp add: recorder_def)

lemma checking_host_returns:
  "R_init_BGData checking_host (Some a) n = Inr (Suc (Suc (Suc n)))"
  by (simp add: R_init_BGData_def checking_host_def)

lemma checking_host_fails:
  "R_init_BGData checking_host None n = Inl (''invalid DllInfo'', n)"
  by (simp add: R_init_BGData_def checking_host_def)

lemma calls_made_checking_host:
  "calls_made checking_host (Some a) n =
     [R_registerRoutines (Some a) None (Some callMethods) None None,
      R_useDynamicSymbols (Some a) False, R_forceSymbols (Some a) True]"
  by (simp add: calls_made_returns [OF checking_host_returns])

text \<open>
  Claim C2. Whatever the host, its state and the library handle, the registrar makes one
  registration call, and in this call the descriptor table is the argument for the
  routines callable from the host language, and the other three table arguments are null.
\<close>

theorem C2_only_call_category:
  "filter is_registration (calls_made H dll s) =
     [R_registerRoutines dll None (Some callMethods) None None]
   \<and> hd (calls_made H dll s) = R_registerRoutines dll None (Some callMethods) None None"
  by (simp add: calls_made_cases split: sum.splits prod.splits)

text \<open>
  Claim C3. On every invocation the registrar turns lookup by name off and lookup by handle
  on, for the library handle it was given: whenever the registrar returns, the calls it has
  made other than the registration are \<open>R_useDynamicSymbols\<close> with \<open>FALSE\<close> and
  \<open>R_forceSymbols\<close> with \<open>TRUE\<close> on this handle, and the state it leaves is the one
  the host returned from the second of them, called on the state returned from the first;
  with a host that returns from every call, these are the calls made; and with no host does
  the registrar make any other call that sets a flag.
\<close>

theorem C3_symbol_policy:
  "(R_init_BGData H dll s = Inr s' \<longrightarrow>
      filter (\<lambda>c. \<not> is_registration c) (calls_made H dll s) =
        [R_useDynamicSymbols dll False, R_forceSymbols dll True]
      \<and> (\<exists>s1 r2 s2 r3. H (R_useDynamicSymbols dll False) s1 = Inr (r2, s2)
            \<and> H (R_forceSymbols dll True) s2 = Inr (r3, s')))
   \<and> (c \<in> set (calls_made H dll s) \<and> \<not> is_registration c \<longrightarrow>
        c = R_useDynamicSymbols dll False \<or> c = R_forceSymbols dll True)
   \<and> filter (\<lambda>c. \<not> is_registration c) (calls_made recorder dll tr) =
        [R_useDynamicSymbols dll False, R_forceSymbols dll True]"
proof -
  have ret: "R_init_BGData H dll s = Inr s' \<longrightarrow>
      filter (\<lambda>c. \<not> is_registration c) (calls_made H dll s) =
        [R_useDynamicSymbols dll False, R_forceSymbols dll True]
      \<and> (\<exists>s1 r2 s2 r3. H (R_useDynamicSymbols dll False) s1 = Inr (r2, s2)
            \<and> H (R_forceSymbols dll True) s2 = Inr (r3, s'))"
  proof
    assume r: "R_init_BGData H dll s = Inr s'"
    have "filter (\<lambda>c. \<not> is_registration c) (calls_made H dll s) =
        [R_useDynamicSymbols dll False, R_forceSymbols dll True]"
      by (simp add: calls_made_returns [OF r])
    moreover have "\<exists>s1 r2 s2 r3. H (R_useDynamicSymbols dll False) s1 = Inr (r2, s2)
          \<and> H (R_forceSymbols dll True) s2 = Inr (r3, s')"
      using r unfolding R_init_BGData_returns by blast
    ultimately show "filter (\<lambda>c. \<not> is_registration c) (calls_made H dll s) =
        [R_useDynamicSymbols dll False, R_forceSymbols dll True]
      \<and> (\<exists>s1 r2 s2 r3. H (R_useDynamicSymbols dll False) s1 = Inr (r2, s2)
            \<and> H (R_forceSymbols dll True) s2 = Inr (r3, s'))"
      by simp
  qed
  have only: "c \<in> set (calls_made H dll s) \<and> \<not> is_registration c \<longrightarrow>
        c = R_useDynamicSymbols dll False \<or> c = R_forceSymbols dll True"
    by (auto simp: calls_made_cases split: sum.splits prod.splits)
  have rec: "filter (\<lambda>c. \<not> is_registration c) (calls_made recorder dll tr) =
        [R_useDynamicSymbols dll False, R_forceSymbols dll True]"
    by (simp add: calls_made_recorder)
  from ret only rec show ?thesis by blast
qed

theorem C3_symbol_policy_witness:
  "R_init_BGData checking_host (Some 7) 0 = Inr 3
   \<and> R_forceSymbols (Some 7) True \<in> set (calls_made checking_host (Some 7) 0)
   \<and> \<not> is_registration (R_forceSymbols (Some 7) True)
   \<and> filter (\<lambda>c. \<not> is_registration c) (calls_made checking_host (Some 7) 0) =
        [R_useDynamicSymbols (Some 7) False, R_forceSymbols (Some 7) True]"
proof -
  have ret: "R_init_BGData checking_host (Some 7) 0 = Inr 3"
    by (simp add: checking_host_returns numeral_3_eq_3)
  have mem: "R_forceSymbols (Some 7) True \<in> set (calls_made checking_host (Some 7) 0)"
    by (simp add: calls_made_checking_host)
  have flag: "\<not> is_registration (R_forceSymbols (Some 7) True)"
    by simp
  have "filter (\<lambda>c. \<not> is_registration c) (calls_made checking_host (Some 7) 0) =
        [R_useDynamicSymbols (Some 7) False, R_forceSymbols (Some 7) True]"
    using C3_symbol_policy [of checking_host "Some 7" 0 3] ret by blast
  then show ?thesis using ret mem flag by simp
qed

text \<open>
  Claim C7. The registrar returns no value and has no errors of its own: for every library
  handle, null or not, a failure of the registrar is the failure of the last host call it
  made; with a host that returns from every call the registrar returns, and what it leaves
  is a state of the host, no value; and the values that the host's calls return have no
  influence on what the registrar does.
\<close>

theorem C7_no_errors_of_its_own:
  "(R_init_BGData H dll s = Inl f \<longrightarrow> (\<exists>t. H (last (calls_made H dll s)) t = Inl f))
   \<and> ((\<forall>c t. \<exists>r t'. H c t = Inr (r, t')) \<longrightarrow> (\<exists>s'. R_init_BGData H dll s = Inr s'))
   \<and> R_init_BGData
        (\<lambda>c t. case H c t of Inl f' \<Rightarrow> Inl f' | Inr (r, t') \<Rightarrow> Inr (g c r, t')) dll s =
      R_init_BGData H dll s"
proof -
  have host_failed:
    "R_init_BGData H dll s = Inl f \<longrightarrow> (\<exists>t. H (last (calls_made H dll s)) t = Inl f)"
    unfolding R_init_BGData_fails
    by (auto simp: calls_made_cases split: sum.splits prod.splits)
  have total:
    "(\<forall>c t. \<exists>r t'. H c t = Inr (r, t')) \<longrightarrow> (\<exists>s'. R_init_BGData H dll s = Inr s')"
    unfolding R_init_BGData_returns by metis
  have discarded:
    "R_init_BGData
        (\<lambda>c t. case H c t of Inl f' \<Rightarrow> Inl f' | Inr (r, t') \<Rightarrow> Inr (g c r, t')) dll s =
      R_init_BGData H dll s"
    by (simp add: R_init_BGData_def split: sum.splits prod.splits)
  from host_failed total discarded show ?thesis by blast
qed

theorem C7_no_errors_of_its_own_witness:
  "R_init_BGData checking_host None 5 = Inl (''invalid DllInfo'', 5)
   \<and> (\<exists>t. checking_host (last (calls_made checking_host None 5)) t = Inl (''invalid DllInfo'', 5))
   \<and> (\<forall>c t. \<exists>r t'. recorder c t = Inr (r, t'))
   \<and> (\<exists>s'. R_init_BGData recorder None [] = Inr s')"
proof -
  have failed: "R_init_BGData checking_host None 5 = Inl (''invalid DllInfo'', 5)"
    by (rule checking_host_fails)
  have "\<exists>t. checking_host (last (calls_made checking_host None 5)) t = Inl (''invalid DllInfo'', 5)"
    using C7_no_errors_of_its_own [of checking_host None 5 "(''invalid DllInfo'', 5)"] failed
    by blast
  moreover have "\<exists>s'. R_init_BGData recorder None [] = Inr s'"
    using C7_no_errors_of_its_own [of recorder None "[]"] recorder_returns by blast
  ultimately show ?thesis using failed recorder_returns by simp
qed

text \<open>
  Claim C10. The registrar makes its host calls in a fixed order: with every host, the
  calls made are the registration alone, or the registration and then the call that turns
  lookup by name off, or these two and then the call that forces lookup by handle. A call
  that turns lookup by name off is preceded by exactly the registration of the table, which
  has returned; a call that forces lookup by handle is preceded by exactly these two; and
  when the registrar returns, each call but the first was made on the state that the call
  before it returned.
\<close>

theorem C10_call_order:
  "calls_made H dll s \<in>
     {[R_registerRoutines dll None (Some callMethods) None None],
      [R_registerRoutines dll None (Some callMethods) None None,
       R_useDynamicSymbols dll False],
      [R_registerRoutines dll None (Some callMethods) None None,
       R_useDynamicSymbols dll False, R_forceSymbols dll True]}
   \<and> (calls_made H dll s = pre @ R_useDynamicSymbols d v # post \<longrightarrow>
        pre = [R_registerRoutines dll None (Some callMethods) None None]
        \<and> (\<exists>r1 s1. H (R_registerRoutines dll None (Some callMethods) None None) s
              = Inr (r1, s1)))
   \<and> (calls_made H dll s = pre' @ R_forceSymbols d' v' # post' \<longrightarrow>
        pre' = [R_registerRoutines dll None (Some callMethods) None None,
                R_useDynamicSymbols dll False])
   \<and> (R_init_BGData H dll s = Inr s' \<longrightarrow>
        calls_made H dll s =
          [R_registerRoutines dll None (Some callMethods) None None,
           R_useDynamicSymbols dll False, R_forceSymbols dll True]
        \<and> (\<exists>r1 s1 r2 s2 r3.
              H (R_registerRoutines dll None (Some callMethods) None None) s = Inr (r1, s1)
            \<and> H (R_useDynamicSymbols dll False) s1 = Inr (r2, s2)
            \<and> H (R_forceSymbols dll True) s2 = Inr (r3, s')))"
proof -
  have shape: "calls_made H dll s \<in>
     {[R_registerRoutines dll None (Some callMethods) None None],
      [R_registerRoutines dll None (Some callMethods) None None,
       R_useDynamicSymbols dll False],
      [R_registerRoutines dll None (Some callMethods) None None,
       R_useDynamicSymbols dll False, R_forceSymbols dll True]}"
    by (simp add: calls_made_cases split: sum.splits prod.splits)
  have before_dyn: "calls_made H dll s = pre @ R_useDynamicSymbols d v # post \<longrightarrow>
        pre = [R_registerRoutines dll None (Some callMethods) None None]
        \<and> (\<exists>r1 s1. H (R_registerRoutines dll None (Some callMethods) None None) s
              = Inr (r1, s1))"
    by (auto simp: calls_made_cases Cons_eq_append_conv split: sum.splits prod.splits)
  have before_force: "calls_made H dll s = pre' @ R_forceSymbols d' v' # post' \<longrightarrow>
        pre' = [R_registerRoutines dll None (Some callMethods) None None,
                R_useDynamicSymbols dll False]"
    by (auto simp: calls_made_cases Cons_eq_append_conv split: sum.splits prod.splits)
  have chain: "R_init_BGData H dll s = Inr s' \<longrightarrow>
        calls_made H dll s =
          [R_registerRoutines dll None (Some callMethods) None None,
           R_useDynamicSymbols dll False, R_forceSymbols dll True]
        \<and> (\<exists>r1 s1 r2 s2 r3.
              H (R_registerRoutines dll None (Some callMethods) None None) s = Inr (r1, s1)
            \<and> H (R_useDynamicSymbols dll False) s1 = Inr (r2, s2)
            \<and> H (R_forceSymbols dll True) s2 = Inr (r3, s'))"
    using calls_made_returns [of H dll s s'] by (simp add: R_init_BGData_returns)
  from shape before_dyn before_force chain show ?thesis by blast
qed

theorem C10_call_order_witness:
  "R_init_BGData checking_host (Some 7) 0 = Inr 3
   \<and> calls_made checking_host (Some 7) 0 =
       [R_registerRoutines (Some 7) None (Some callMethods) None None]
         @ R_useDynamicSymbols (Some 7) False # [R_forceSymbols (Some 7) True]
   \<and> calls_made checking_host (Some 7) 0 =
       [R_registerRoutines (Some 7) None (Some callMethods) None None,
        R_useDynamicSymbols (Some 7) False]
         @ R_forceSymbols (Some 7) True # []
   \<and> (\<exists>r1 s1. checking_host (R_registerRoutines (Some 7) None (Some callMethods) None None) 0
         = Inr (r1, s1))"
proof -
  have ret: "R_init_BGData checking_host (Some 7) 0 = Inr 3"
    by (simp add: checking_host_returns numeral_3_eq_3)
  have split_dyn: "calls_made checking_host (Some 7) 0 =
       [R_registerRoutines (Some 7) None (Some callMethods) None None]
         @ R_useDynamicSymbols (Some 7) False # [R_forceSymbols (Some 7) True]"
    by (simp add: calls_made_checking_host)
  have split_force: "calls_made checking_host (Some 7) 0 =
       [R_registerRoutines (Some 7) None (Some callMethods) None None,
        R_useDynamicSymbols (Some 7) False]
         @ R_forceSymbols (Some 7) True # []"
    by (simp add: calls_made_checking_host)
  have "\<exists>r1 s1. checking_host (R_registerRoutines (Some 7) None (Some callMethods) None None) 0
         = Inr (r1, s1)"
    using C10_call_order [of checking_host "Some 7" 0
        "[R_registerRoutines (Some 7) None (Some callMethods) None None]" "Some 7" False
        "[R_forceSymbols (Some 7) True]"] split_dyn
    by blast
  then show ?thesis using ret split_dyn split_force by simp
qed

end
